theory Spec2Isabelle
  imports Main "HOL-Library.Char_ord" "HOL-Library.List_Lexorder"
begin

section \<open>Values, exceptions and outcomes\<close>

text \<open>
  A raw request is a Python dict from field names to JSON values (floats are left out:
  no field of the two schemas reads one).
\<close>

datatype json = JNull | JBool bool | JInt int | JStr string | JList "json list"
  | JObj "(string \<times> json) list"

text \<open>
  The messages that marshmallow's ValidationError carries for one field: a list of
  strings, or, for a list field, messages by item index.
\<close>

datatype messages = Messages "string list" | ByIndex "(nat \<times> string list) list"

text \<open>
  The argument an exception of porter.fields.exceptions is built with: a string
  (\<^verbatim>\<open>InvalidInputData(f"...")\<close>), an f-string that ends with the repr of a set
  (\<^verbatim>\<open>f"...common entries {common_ursulas}"\<close>: the set is kept as a set, since the
  order in which Python prints it is not fixed), or the ValidationError that
  \<^verbatim>\<open>handle_error\<close> wraps, given by its \<^verbatim>\<open>messages\<close> dict in the order the
  errors were stored.
\<close>

datatype exc_arg = Message string | MessageWithSet string "string set"
  | ValidationError "(string \<times> messages) list"

text \<open>
  InvalidInputData and InvalidArgumentCombo are the SpecificationError classes of
  porter/fields/exceptions.py (ValueError subclasses, no relation to marshmallow's
  ValidationError). KeyError is what \<^verbatim>\<open>data['quantity']\<close> raises on a missing key.
  Other stands for any further exception a field class outside src/ may raise.
\<close>

datatype exn = InvalidInputData exc_arg | InvalidArgumentCombo exc_arg | KeyError string
  | Other string

text \<open>
  What a call made by the schema engine can do: return, raise marshmallow's
  ValidationError (which the engine catches and stores), or raise any other exception
  (which the engine does not catch).
\<close>

datatype 'a outcome = Ok 'a | Invalid messages | Raise exn

fun map_outcome :: "('a \<Rightarrow> 'b) \<Rightarrow> 'a outcome \<Rightarrow> 'b outcome" where
  "map_outcome f (Ok x) = Ok (f x)"
| "map_outcome f (Invalid m) = Invalid m"
| "map_outcome f (Raise e) = Raise e"

section \<open>The schema engine under BaseSchema\<close>

text \<open>
  The loaded request is the dict that load returns. Its declared keys are typed by the
  field classes, so they are kept as a record \<open>'d\<close> of optional values (None for a key
  that is not in the dict); the keys that no load field declares are kept beside them
  with their raw values.
\<close>

record 'd loaded =
  known :: 'd
  unknown :: "string \<rightharpoonup> json"

text \<open>
  A load field: its name, its \<^verbatim>\<open>required\<close> flag, and \<^verbatim>\<open>deserialize\<close> on a raw
  value that is present, which on success gives the store into the result dict under
  the field's key.
\<close>

record 'd field_obj =
  field_name :: string
  required :: bool
  deserialize :: "json \<Rightarrow> ('d \<Rightarrow> 'd) outcome"

text \<open>
  A schema class: its load fields in declaration order, the empty result dict, and its
  \<^verbatim>\<open>@validates_schema\<close> methods by attribute name, as the class body declares them.
\<close>

record 'd schema =
  load_fields :: "'d field_obj list"
  empty_dict :: 'd
  validators :: "(string \<times> ('d loaded \<Rightarrow> unit outcome)) list"

text \<open>
  \<^verbatim>\<open>Schema._deserialize\<close> for one dict: every load field in turn. A missing required
  field and a ValidationError of \<^verbatim>\<open>deserialize\<close> are stored under the field's name
  and the loop goes on (\<^verbatim>\<open>_call_and_store\<close> catches ValidationError only); any other
  exception leaves the loop and load at once. Field names are attribute names of one
  class, hence distinct, so storing an error is adding an entry.
\<close>

fun deserialize_fields :: "'d field_obj list \<Rightarrow> (string \<rightharpoonup> json) \<Rightarrow> 'd \<Rightarrow>
    (string \<times> messages) list \<Rightarrow> exn + 'd \<times> (string \<times> messages) list" where
  "deserialize_fields [] data ret_d errors = Inr (ret_d, errors)"
| "deserialize_fields (f # fs) data ret_d errors =
     (case data (field_name f) of
        None \<Rightarrow>
          if required f
          then deserialize_fields fs data ret_d
                 (errors @ [(field_name f, Messages [''Missing data for required field.''])])
          else deserialize_fields fs data ret_d errors
      | Some raw_value \<Rightarrow>
          (case deserialize f raw_value of
             Ok store \<Rightarrow> deserialize_fields fs data (store ret_d) errors
           | Invalid msgs \<Rightarrow> deserialize_fields fs data ret_d (errors @ [(field_name f, msgs)])
           | Raise e \<Rightarrow> Inl e))"

text \<open>
  \<^verbatim>\<open>Meta.unknown = INCLUDE\<close>: every key of the raw dict that is not the name of a
  load field is copied into the result with its raw value.
\<close>

definition unknown_keys :: "'d field_obj list \<Rightarrow> (string \<rightharpoonup> json) \<Rightarrow> (string \<rightharpoonup> json)" where
  "unknown_keys fs data = (\<lambda>key. if key \<in> set (map field_name fs) then None else data key)"

text \<open>
  \<^verbatim>\<open>SchemaMeta.resolve_hooks\<close> collects the decorated methods while it walks
  \<^verbatim>\<open>dir(cls)\<close>, which Python returns sorted by name: the hooks run in the order of
  their attribute names, not in the order of the class body.
\<close>

definition resolve_hooks :: "(string \<times> 'h) list \<Rightarrow> (string \<times> 'h) list" where
  "resolve_hooks hooks = sort_key fst hooks"

text \<open>
  \<^verbatim>\<open>_invoke_schema_validators\<close>: with the default \<^verbatim>\<open>skip_on_field_errors=True\<close> a
  validator is skipped when a field error was stored. A ValidationError of a validator
  is stored under \<^verbatim>\<open>_schema\<close>; any other exception leaves load at once.
\<close>

fun invoke_schema_validators :: "(string \<times> ('d loaded \<Rightarrow> unit outcome)) list \<Rightarrow> bool \<Rightarrow>
    'd loaded \<Rightarrow> (string \<times> messages) list \<Rightarrow> exn + (string \<times> messages) list" where
  "invoke_schema_validators [] field_errors data errors = Inr errors"
| "invoke_schema_validators (h # hs) field_errors data errors =
     (if field_errors then invoke_schema_validators hs field_errors data errors
      else (case snd h data of
              Ok u \<Rightarrow> invoke_schema_validators hs field_errors data errors
            | Invalid msgs \<Rightarrow>
                invoke_schema_validators hs field_errors data (errors @ [(''_schema'', msgs)])
            | Raise e \<Rightarrow> Inl e))"

text \<open>
  \<^verbatim>\<open>BaseSchema.handle_error\<close>: \<^verbatim>\<open>raise InvalidInputData(error)\<close>, where error is
  the ValidationError that holds every stored message.
\<close>

definition handle_error :: "(string \<times> messages) list \<Rightarrow> exn + 'a" where
  "handle_error errors = Inl (InvalidInputData (ValidationError errors))"

text \<open>
  \<^verbatim>\<open>Schema.load\<close> of one dict (\<^verbatim>\<open>_do_load\<close> with many=False, partial=False; the
  schemas declare no pre-load, post-load or field-level hooks).
\<close>

definition load :: "'d schema \<Rightarrow> (string \<rightharpoonup> json) \<Rightarrow> exn + 'd loaded" where
  "load sch data =
     (case deserialize_fields (load_fields sch) data (empty_dict sch) [] of
        Inl e \<Rightarrow> Inl e
      | Inr (ret_d, errors) \<Rightarrow>
          (let result = \<lparr>known = ret_d, unknown = unknown_keys (load_fields sch) data\<rparr> in
           case invoke_schema_validators (resolve_hooks (validators sch)) (errors \<noteq> [])
                  result errors of
             Inl e \<Rightarrow> Inl e
           | Inr errors' \<Rightarrow> if errors' \<noteq> [] then handle_error errors' else Inr result))"

section \<open>AliceGetUrsulas\<close>

record AliceGetUrsulas_data =
  quantity :: "int option"
  exclude_ursulas :: "string list option"
  include_ursulas :: "string list option"

text \<open>
  \<^verbatim>\<open>ursulas_to_include = data.get('include_ursulas')\<close>;
  \<^verbatim>\<open>if ursulas_to_include and len(ursulas_to_include) > data['quantity']: raise ...\<close>.
  The \<^verbatim>\<open>and\<close> reads \<^verbatim>\<open>data['quantity']\<close> only when the list is there and not empty.
\<close>

definition check_valid_quantity_and_include_ursulas ::
    "AliceGetUrsulas_data loaded \<Rightarrow> unit outcome" where
  "check_valid_quantity_and_include_ursulas data =
     (case include_ursulas (known data) of
        None \<Rightarrow> Ok ()
      | Some ursulas_to_include \<Rightarrow>
          if ursulas_to_include \<noteq> [] then
            (case quantity (known data) of
               None \<Rightarrow> Raise (KeyError ''quantity'')
             | Some q \<Rightarrow>
                 if int (length ursulas_to_include) > q
                 then Raise (InvalidArgumentCombo
                        (Message ''Ursulas to include is greater than quantity requested''))
                 else Ok ())
          else Ok ())"

text \<open>\<^verbatim>\<open>data.get(key) or []\<close>\<close>

definition get_or_empty :: "'a list option \<Rightarrow> 'a list" where
  "get_or_empty v = (case v of None \<Rightarrow> [] | Some xs \<Rightarrow> if xs \<noteq> [] then xs else [])"

definition check_include_and_exclude_are_mutually_exclusive ::
    "AliceGetUrsulas_data loaded \<Rightarrow> unit outcome" where
  "check_include_and_exclude_are_mutually_exclusive data =
     (let ursulas_to_include = get_or_empty (include_ursulas (known data));
          ursulas_to_exclude = get_or_empty (exclude_ursulas (known data));
          common_ursulas = set ursulas_to_include \<inter> set ursulas_to_exclude
      in if common_ursulas \<noteq> {}
         then Raise (InvalidArgumentCombo (MessageWithSet
                ''Ursulas to include and exclude are not mutually exclusive; common entries ''
                common_ursulas))
         else Ok ())"

text \<open>
  The class body: quantity (required), exclude_ursulas and include_ursulas (optional),
  all load_only; ursulas is dump_only and therefore no load field. The field classes
  PositiveInteger and StringList(UrsulaChecksumAddress()) are not under src/: their
  \<^verbatim>\<open>deserialize\<close> is a parameter, typed by what the class produces; the list field
  takes the name it is bound to.
\<close>

definition AliceGetUrsulas :: "(json \<Rightarrow> int outcome) \<Rightarrow> (string \<Rightarrow> json \<Rightarrow> string list outcome) \<Rightarrow>
    AliceGetUrsulas_data schema" where
  "AliceGetUrsulas PositiveInteger StringList =
     \<lparr>load_fields =
        [\<lparr>field_name = ''quantity'', required = True,
          deserialize = (\<lambda>v. map_outcome (\<lambda>q d. d\<lparr>quantity := Some q\<rparr>) (PositiveInteger v))\<rparr>,
         \<lparr>field_name = ''exclude_ursulas'', required = False,
          deserialize = (\<lambda>v. map_outcome (\<lambda>us d. d\<lparr>exclude_ursulas := Some us\<rparr>)
                                (StringList ''exclude_ursulas'' v))\<rparr>,
         \<lparr>field_name = ''include_ursulas'', required = False,
          deserialize = (\<lambda>v. map_outcome (\<lambda>us d. d\<lparr>include_ursulas := Some us\<rparr>)
                                (StringList ''include_ursulas'' v))\<rparr>],
      empty_dict = \<lparr>quantity = None, exclude_ursulas = None, include_ursulas = None\<rparr>,
      validators =
        [(''check_valid_quantity_and_include_ursulas'',
          check_valid_quantity_and_include_ursulas),
         (''check_include_and_exclude_are_mutually_exclusive'',
          check_include_and_exclude_are_mutually_exclusive)]\<rparr>"

section \<open>BobRetrieveCFrags and the TreasureMap field\<close>

text \<open>
  \<^verbatim>\<open>TreasureMap._deserialize\<close>: the base class's \<^verbatim>\<open>_deserialize\<close>
  (Base64BytesRepresentation) and \<^verbatim>\<open>TreasureMapClass.from_bytes\<close> (nucypher_core) are
  collaborators outside src/. The handler reads nothing of a caught exception but
  \<^verbatim>\<open>str(e)\<close>, so a collaborator returns its value (Inr) or the text of the Exception
  it raises (Inl). \<^verbatim>\<open>self.name\<close> is the name the field is bound to.
\<close>

definition could_not_convert :: "string \<Rightarrow> string \<Rightarrow> exn" where
  "could_not_convert name e =
     InvalidInputData
       (Message (''Could not convert input for '' @ name @ '' to a TreasureMap: '' @ e))"

definition TreasureMap_deserialize :: "string \<Rightarrow> (json \<Rightarrow> string + 'b) \<Rightarrow> ('b \<Rightarrow> string + 'tm) \<Rightarrow>
    json \<Rightarrow> 'tm outcome" where
  "TreasureMap_deserialize name super_deserialize from_bytes value =
     (case super_deserialize value of
        Inl e \<Rightarrow> Raise (could_not_convert name e)
      | Inr treasure_map_bytes \<Rightarrow>
          (case from_bytes treasure_map_bytes of
             Inl e \<Rightarrow> Raise (could_not_convert name e)
           | Inr treasure_map \<Rightarrow> Ok treasure_map))"

text \<open>
  marshmallow's \<^verbatim>\<open>Field.deserialize\<close> around a field's \<^verbatim>\<open>_deserialize\<close>: a null
  is refused with a ValidationError first (no field here sets allow_none or a
  validator).
\<close>

definition Field_deserialize :: "(json \<Rightarrow> 'a outcome) \<Rightarrow> json \<Rightarrow> 'a outcome" where
  "Field_deserialize inner value =
     (if value = JNull then Invalid (Messages [''Field may not be null.'']) else inner value)"

record ('tm, 'kit, 'key) BobRetrieveCFrags_data =
  treasure_map :: "'tm option"
  retrieval_kits :: "'kit list option"
  alice_verifying_key :: "'key option"
  bob_encrypting_key :: "'key option"
  bob_verifying_key :: "'key option"
  "context" :: "(string \<times> json) list option"

text \<open>
  The class body: five required fields and the optional context, all load_only, no
  schema validator; retrieval_results is dump_only. StringList(RetrievalKit()), Key and
  JSON are field classes outside src/ and parameters here, as are the two
  collaborators of TreasureMap.
\<close>

definition BobRetrieveCFrags :: "(json \<Rightarrow> string + 'b) \<Rightarrow> ('b \<Rightarrow> string + 'tm) \<Rightarrow>
    (json \<Rightarrow> 'kit list outcome) \<Rightarrow> (string \<Rightarrow> json \<Rightarrow> 'key outcome) \<Rightarrow>
    (json \<Rightarrow> (string \<times> json) list outcome) \<Rightarrow>
    ('tm, 'kit, 'key) BobRetrieveCFrags_data schema" where
  "BobRetrieveCFrags super_deserialize from_bytes StringList Key JSON =
     \<lparr>load_fields =
        [\<lparr>field_name = ''treasure_map'', required = True,
          deserialize = (\<lambda>v. map_outcome (\<lambda>x d. d\<lparr>treasure_map := Some x\<rparr>)
            (Field_deserialize
               (TreasureMap_deserialize ''treasure_map'' super_deserialize from_bytes) v))\<rparr>,
         \<lparr>field_name = ''retrieval_kits'', required = True,
          deserialize = (\<lambda>v. map_outcome (\<lambda>x d. d\<lparr>retrieval_kits := Some x\<rparr>) (StringList v))\<rparr>,
         \<lparr>field_name = ''alice_verifying_key'', required = True,
          deserialize = (\<lambda>v. map_outcome (\<lambda>x d. d\<lparr>alice_verifying_key := Some x\<rparr>)
                                (Key ''alice_verifying_key'' v))\<rparr>,
         \<lparr>field_name = ''bob_encrypting_key'', required = True,
          deserialize = (\<lambda>v. map_outcome (\<lambda>x d. d\<lparr>bob_encrypting_key := Some x\<rparr>)
                                (Key ''bob_encrypting_key'' v))\<rparr>,
         \<lparr>field_name = ''bob_verifying_key'', required = True,
          deserialize = (\<lambda>v. map_outcome (\<lambda>x d. d\<lparr>bob_verifying_key := Some x\<rparr>)
                                (Key ''bob_verifying_key'' v))\<rparr>,
         \<lparr>field_name = ''context'', required = False,
          deserialize = (\<lambda>v. map_outcome (\<lambda>x d. d\<lparr>context := Some x\<rparr>) (JSON v))\<rparr>],
      empty_dict = \<lparr>treasure_map = None, retrieval_kits = None, alice_verifying_key = None,
                    bob_encrypting_key = None, bob_verifying_key = None, context = None\<rparr>,
      validators = []\<rparr>"

section \<open>What the per-field phase is expected to record\<close>

text \<open>
  The per-field errors as the specification describes them: one entry for every
  required field that is missing and for every present field whose decode is refused
  with a ValidationError, in field order.
\<close>

definition field_failure :: "(string \<rightharpoonup> json) \<Rightarrow> 'd field_obj \<Rightarrow> (string \<times> messages) list" where
  "field_failure data f =
     (case data (field_name f) of
        None \<Rightarrow> if required f
                then [(field_name f, Messages [''Missing data for required field.''])] else []
      | Some v \<Rightarrow> (case deserialize f v of Invalid msgs \<Rightarrow> [(field_name f, msgs)] | _ \<Rightarrow> []))"

definition field_failures :: "'d field_obj list \<Rightarrow> (string \<rightharpoonup> json) \<Rightarrow> (string \<times> messages) list" where
  "field_failures fs data = concat (map (field_failure data) fs)"

definition raises_on :: "(string \<rightharpoonup> json) \<Rightarrow> 'd field_obj \<Rightarrow> bool" where
  "raises_on data f =
     (case data (field_name f) of
        None \<Rightarrow> False
      | Some v \<Rightarrow> (case deserialize f v of Raise e \<Rightarrow> True | _ \<Rightarrow> False))"

definition fails_with_InvalidArgumentCombo :: "exn + 'a \<Rightarrow> bool" where
  "fails_with_InvalidArgumentCombo r =
     (case r of Inl (InvalidArgumentCombo a) \<Rightarrow> True | _ \<Rightarrow> False)"

section \<open>Field classes for the examples\<close>

text \<open>
  Modelled from the spec: PositiveInteger (porter/specifications/fields, not under
  src/), the Integer kind of the data model: a JSON integer above zero decodes to
  itself, anything else is a per-field decode error.
\<close>

fun PositiveInteger_spec :: "json \<Rightarrow> int outcome" where
  "PositiveInteger_spec (JInt n) =
     (if 0 < n then Ok n else Invalid (Messages [''Must be a positive integer.'']))"
| "PositiveInteger_spec v = Invalid (Messages [''Not a valid integer.''])"

text \<open>
  Modelled from the spec: StringList(UrsulaChecksumAddress()) (porter/specifications/fields
  and porter/fields, not under src/): a sequence of raw items, each decoded by the
  inner type, order kept. The inner type's opaque validity check is reduced to the shape
  of an address, 0x and forty more characters.
\<close>

fun address_items :: "json list \<Rightarrow> string list option" where
  "address_items [] = Some []"
| "address_items (JStr a # vs) =
     (if length a = 42 \<and> take 2 a = ''0x''
      then map_option (\<lambda>us. a # us) (address_items vs) else None)"
| "address_items (v # vs) = None"

fun StringList_spec :: "string \<Rightarrow> json \<Rightarrow> string list outcome" where
  "StringList_spec name (JList vs) =
     (case address_items vs of
        Some us \<Rightarrow> Ok us
      | None \<Rightarrow> Invalid (Messages [''Not a valid checksum address.'']))"
| "StringList_spec name v = Invalid (Messages [''Not a valid list.''])"

text \<open>
  A collaborator that raises an Exception with the given text, and a field class that
  an example's input never reaches.
\<close>

definition raising :: "string \<Rightarrow> 'a \<Rightarrow> string + 'b" where
  "raising text v = Inl text"

definition unreached :: "'a \<Rightarrow> 'b outcome" where
  "unreached v = Raise (Other ''unreached'')"

abbreviation ursula_A :: string where
  "ursula_A \<equiv> ''0x5aAeb6053F3E94C9b9A09f33669435E7Ef1BeAed''"

abbreviation ursula_B :: string where
  "ursula_B \<equiv> ''0xfB6916095ca1df60bB79Ce92cE3Ea74c37c5d359''"

abbreviation ursula_C :: string where
  "ursula_C \<equiv> ''0xdbF03B407c01E7cD3CBea99509d93f8DDDC8C6FB''"

text \<open>AliceRevoke: \<^verbatim>\<open>pass\<close>, a schema with no field and no validator.\<close>

definition AliceRevoke :: "unit schema" where
  "AliceRevoke = \<lparr>load_fields = [], empty_dict = (), validators = []\<rparr>"

text \<open>Keys that none of the schema's load fields is named after.\<close>

definition undeclared_by :: "'d schema \<Rightarrow> (string \<rightharpoonup> json) \<Rightarrow> bool" where
  "undeclared_by sch extra = (\<forall>k \<in> set (map field_name (load_fields sch)). extra k = None)"

abbreviation greater_than_quantity :: exn where
  "greater_than_quantity \<equiv>
     InvalidArgumentCombo (Message ''Ursulas to include is greater than quantity requested'')"

abbreviation not_mutually_exclusive :: "string set \<Rightarrow> exn" where
  "not_mutually_exclusive common \<equiv>
     InvalidArgumentCombo (MessageWithSet
       ''Ursulas to include and exclude are not mutually exclusive; common entries '' common)"

section \<open>Properties of the engine\<close>

lemma map_outcome_case:
  "map_outcome f x = (case x of Ok a \<Rightarrow> Ok (f a) | Invalid m \<Rightarrow> Invalid m | Raise e \<Rightarrow> Raise e)"
  by (cases x) simp_all

lemma validators_skipped: "invoke_schema_validators hs True data errors = Inr errors"
  by (induction hs) simp_all

lemma first_raise_aborts:
  "snd h r = Raise e \<Longrightarrow> invoke_schema_validators (h # hs) False r errors = Inl e"
  by simp

lemma deserialize_fields_no_raise:
  "\<forall>f \<in> set fs. \<not> raises_on data f \<Longrightarrow>
   \<exists>d'. deserialize_fields fs data d errs = Inr (d', errs @ field_failures fs data)"
proof (induction fs arbitrary: d errs)
  case Nil
  then show ?case by (simp add: field_failures_def)
next
  case (Cons f fs)
  then have nr: "\<not> raises_on data f" and rest: "\<forall>g \<in> set fs. \<not> raises_on data g" by simp_all
  have IH: "\<exists>d'. deserialize_fields fs data d0 (errs @ es) = Inr (d', errs @ es @ field_failures fs data)" for d0 es
    using Cons.IH [OF rest, of d0 "errs @ es"] by simp
  show ?case
  proof (cases "data (field_name f)")
    case None
    then show ?thesis using IH [of d "[]"] IH [of d "[(field_name f, Messages [''Missing data for required field.''])]"]
      by (simp add: field_failures_def field_failure_def)
  next
    case (Some v)
    then show ?thesis using nr IH [of _ "[]"] IH [of d "[(field_name f, m)]" for m]
      by (cases "deserialize f v") (simp_all add: field_failures_def field_failure_def raises_on_def)
  qed
qed

lemma deserialize_fields_raise:
  "\<exists>f \<in> set fs. raises_on data f \<Longrightarrow>
   \<exists>e. deserialize_fields fs data d errs = Inl e \<and>
       (\<exists>g \<in> set fs. \<exists>v. data (field_name g) = Some v \<and> deserialize g v = Raise e)"
proof (induction fs arbitrary: d errs)
  case Nil
  then show ?case by simp
next
  case (Cons f fs)
  show ?case
  proof (cases "raises_on data f")
    case True
    then show ?thesis
      by (auto simp: raises_on_def split: option.splits outcome.splits)
  next
    case False
    with Cons.prems have "\<exists>g \<in> set fs. raises_on data g" by simp
    from Cons.IH [OF this] have IH: "\<exists>e. deserialize_fields fs data d0 es = Inl e \<and>
       (\<exists>g \<in> set fs. \<exists>v. data (field_name g) = Some v \<and> deserialize g v = Raise e)" for d0 es .
    show ?thesis
    proof (cases "data (field_name f)")
      case None
      then show ?thesis using IH [of d errs] IH [of d "errs @ [(field_name f, Messages [''Missing data for required field.''])]"]
        by auto
    next
      case (Some v)
      then show ?thesis using False IH [of _ errs] IH [of d "errs @ [(field_name f, m)]" for m]
        by (cases "deserialize f v") (auto simp: raises_on_def)
    qed
  qed
qed

lemma deserialize_fields_first_raise:
  "\<forall>g \<in> set fs1. \<not> raises_on data g \<Longrightarrow> data (field_name f) = Some v \<Longrightarrow>
   deserialize f v = Raise e \<Longrightarrow>
   deserialize_fields (fs1 @ f # fs2) data d errs = Inl e"
proof (induction fs1 arbitrary: d errs)
  case Nil
  then show ?case by simp
next
  case (Cons g gs)
  then have nr: "\<not> raises_on data g" and rest: "\<forall>h \<in> set gs. \<not> raises_on data h" by simp_all
  have IH: "deserialize_fields (gs @ f # fs2) data d0 es = Inl e" for d0 es
    by (rule Cons.IH [OF rest Cons.prems(2) Cons.prems(3)])
  show ?case
  proof (cases "data (field_name g)")
    case None
    then show ?thesis by (simp add: IH)
  next
    case (Some w)
    then show ?thesis using nr
      by (cases "deserialize g w") (simp_all add: IH raises_on_def)
  qed
qed

lemma load_field_errors:
  assumes "deserialize_fields (load_fields sch) data (empty_dict sch) [] = Inr (d, errors)"
    and "errors \<noteq> []"
  shows "load sch data = Inl (InvalidInputData (ValidationError errors))"
  using assms by (simp add: load_def validators_skipped handle_error_def Let_def)

lemma failing_names:
  "map fst (field_failures fs data) = map field_name (filter (\<lambda>f. field_failure data f \<noteq> []) fs)"
  by (induction fs)
     (auto simp: field_failures_def field_failure_def split: option.splits outcome.splits)

lemma missing_names:
  "\<forall>f \<in> set fs. \<forall>v. data (field_name f) = Some v \<longrightarrow> (\<exists>s. deserialize f v = Ok s) \<Longrightarrow>
   map fst (field_failures fs data) =
     map field_name (filter (\<lambda>f. required f \<and> data (field_name f) = None) fs)"
  by (induction fs)
     (auto simp: field_failures_def field_failure_def split: option.splits outcome.splits)


lemma resolve_hooks_Nil: "resolve_hooks [] = []"
  by (simp add: resolve_hooks_def)

lemma set_resolve_hooks: "set (resolve_hooks hs) = set hs"
  by (simp add: resolve_hooks_def)

lemma deserialize_fields_extra:
  "\<forall>k \<in> set (map field_name fs). extra k = None \<Longrightarrow>
   deserialize_fields fs (data ++ extra) d errs = deserialize_fields fs data d errs"
proof (induction fs arbitrary: d errs)
  case Nil
  then show ?case by simp
next
  case (Cons f fs)
  then have "extra (field_name f) = None" by simp
  then have "(data ++ extra) (field_name f) = data (field_name f)"
    by (simp add: map_add_def)
  with Cons show ?case
    by (simp split: option.splits outcome.splits)
qed

lemma unknown_keys_extra:
  "\<forall>k \<in> set (map field_name fs). extra k = None \<Longrightarrow>
   unknown_keys fs (data ++ extra) = unknown_keys fs data ++ extra"
  by (rule ext) (auto simp: unknown_keys_def map_add_def split: option.splits)

lemma invoke_ignores_unknown:
  "\<forall>h \<in> set hs. \<forall>d u u'. snd h \<lparr>known = d, unknown = u\<rparr> = snd h \<lparr>known = d, unknown = u'\<rparr> \<Longrightarrow>
   invoke_schema_validators hs b \<lparr>known = d, unknown = u\<rparr> errs =
   invoke_schema_validators hs b \<lparr>known = d, unknown = u'\<rparr> errs"
proof (induction hs arbitrary: errs)
  case Nil
  then show ?case by simp
next
  case (Cons h hs)
  then have h: "snd h \<lparr>known = d, unknown = u\<rparr> = snd h \<lparr>known = d, unknown = u'\<rparr>"
    by simp
  from Cons show ?case
    by (cases b) (simp_all add: h split: outcome.splits)
qed

lemma load_extra:
  assumes "undeclared_by sch extra"
    and "\<forall>h \<in> set (validators sch). \<forall>d u u'.
           snd h \<lparr>known = d, unknown = u\<rparr> = snd h \<lparr>known = d, unknown = u'\<rparr>"
  shows "load sch (data ++ extra) =
         map_sum id (\<lambda>r. r\<lparr>unknown := unknown r ++ extra\<rparr>) (load sch data)"
proof -
  from assms(1) have u: "\<forall>k \<in> set (map field_name (load_fields sch)). extra k = None"
    by (simp add: undeclared_by_def)
  from assms(2) have ig: "\<forall>h \<in> set (resolve_hooks (validators sch)). \<forall>d u u'.
           snd h \<lparr>known = d, unknown = u\<rparr> = snd h \<lparr>known = d, unknown = u'\<rparr>"
    by (simp add: set_resolve_hooks)
  show ?thesis
  proof (cases "deserialize_fields (load_fields sch) data (empty_dict sch) []")
    case (Inl e)
    then show ?thesis
      by (simp add: load_def deserialize_fields_extra [OF u])
  next
    case (Inr p)
    obtain d errs where p: "p = (d, errs)" by (cases p)
    have inv: "invoke_schema_validators (resolve_hooks (validators sch)) b
        \<lparr>known = d, unknown = unknown_keys (load_fields sch) data ++ extra\<rparr> errs =
      invoke_schema_validators (resolve_hooks (validators sch)) b
        \<lparr>known = d, unknown = unknown_keys (load_fields sch) data\<rparr> errs" for b
      by (rule invoke_ignores_unknown [OF ig])
    from Inr p show ?thesis
      by (simp add: load_def deserialize_fields_extra [OF u] unknown_keys_extra [OF u] inv
          handle_error_def Let_def split: sum.splits)
  qed
qed

section \<open>Properties of AliceGetUrsulas\<close>

lemma Alice_hooks: "resolve_hooks (validators (AliceGetUrsulas P S)) =
  [(''check_include_and_exclude_are_mutually_exclusive'', check_include_and_exclude_are_mutually_exclusive),
   (''check_valid_quantity_and_include_ursulas'', check_valid_quantity_and_include_ursulas)]"
  by (simp add: resolve_hooks_def AliceGetUrsulas_def)

lemma Alice_rules:
  "invoke_schema_validators (resolve_hooks (validators (AliceGetUrsulas P S))) False r [] =
     (case check_include_and_exclude_are_mutually_exclusive r of
        Raise e \<Rightarrow> Inl e
      | _ \<Rightarrow> (case check_valid_quantity_and_include_ursulas r of Raise e \<Rightarrow> Inl e | _ \<Rightarrow> Inr []))"
  unfolding Alice_hooks
  by (simp add: check_include_and_exclude_are_mutually_exclusive_def
      check_valid_quantity_and_include_ursulas_def Let_def split: option.splits)

lemma Alice_load_fields_pass:
  assumes "deserialize_fields (load_fields (AliceGetUrsulas P S)) data
             (empty_dict (AliceGetUrsulas P S)) [] = Inr (d, [])"
  shows "load (AliceGetUrsulas P S) data =
     (case check_include_and_exclude_are_mutually_exclusive
             \<lparr>known = d, unknown = unknown_keys (load_fields (AliceGetUrsulas P S)) data\<rparr> of
        Raise e \<Rightarrow> Inl e
      | _ \<Rightarrow> (case check_valid_quantity_and_include_ursulas
                    \<lparr>known = d, unknown = unknown_keys (load_fields (AliceGetUrsulas P S)) data\<rparr> of
                Raise e \<Rightarrow> Inl e
              | _ \<Rightarrow> Inr \<lparr>known = d, unknown = unknown_keys (load_fields (AliceGetUrsulas P S)) data\<rparr>))"
  using assms
  by (simp add: load_def Alice_rules Let_def split: outcome.splits)

lemma check_disjoint_cases:
  "check_include_and_exclude_are_mutually_exclusive r =
     (if set (get_or_empty (include_ursulas (known r))) \<inter> set (get_or_empty (exclude_ursulas (known r))) \<noteq> {}
      then Raise (not_mutually_exclusive
             (set (get_or_empty (include_ursulas (known r))) \<inter> set (get_or_empty (exclude_ursulas (known r)))))
      else Ok ())"
  by (simp add: check_include_and_exclude_are_mutually_exclusive_def Let_def)

lemma check_quantity_cases:
  "check_valid_quantity_and_include_ursulas r =
     (if get_or_empty (include_ursulas (known r)) = [] then Ok ()
      else (case quantity (known r) of
              None \<Rightarrow> Raise (KeyError ''quantity'')
            | Some q \<Rightarrow> if int (length (get_or_empty (include_ursulas (known r)))) > q
                        then Raise greater_than_quantity else Ok ()))"
  by (simp add: check_valid_quantity_and_include_ursulas_def get_or_empty_def split: option.splits)

lemma Alice_fields_result:
  assumes "deserialize_fields (load_fields (AliceGetUrsulas P S)) data
             (empty_dict (AliceGetUrsulas P S)) [] = Inr (d, errors)"
  shows "(data ''include_ursulas'' = None \<longrightarrow> include_ursulas d = None)"
    and "(data ''exclude_ursulas'' = None \<longrightarrow> exclude_ursulas d = None)"
    and "(errors = [] \<longrightarrow> quantity d \<noteq> None)"
  using assms
  by (auto simp: AliceGetUrsulas_def map_outcome_case split: option.splits outcome.splits if_splits)

lemma Alice_rules_ignore_unknown:
  "\<forall>h \<in> set (validators (AliceGetUrsulas P S)). \<forall>d u u'.
     snd h \<lparr>known = d, unknown = u\<rparr> = snd h \<lparr>known = d, unknown = u'\<rparr>"
  by (simp add: AliceGetUrsulas_def check_include_and_exclude_are_mutually_exclusive_def
      check_valid_quantity_and_include_ursulas_def split: option.splits)

section \<open>The claims\<close>

text \<open>
  C1 (as amended). For AliceGetUrsulas, when the per-field phase has stored no error, the
  include list is present and not empty, and it shares no entry with the exclude list,
  load fails with InvalidArgumentCombo if and only if the include list is longer than
  quantity; equal length is allowed and load then returns the loaded request.
\<close>

theorem include_within_quantity:
  assumes "deserialize_fields (load_fields (AliceGetUrsulas P S)) data
             (empty_dict (AliceGetUrsulas P S)) [] = Inr (d, [])"
    and "quantity d = Some q"
    and "include_ursulas d = Some inc"
    and "inc \<noteq> []"
    and "set inc \<inter> set (get_or_empty (exclude_ursulas d)) = {}"
  shows "(fails_with_InvalidArgumentCombo (load (AliceGetUrsulas P S) data) \<longleftrightarrow> int (length inc) > q) \<and>
         (int (length inc) > q \<longrightarrow> load (AliceGetUrsulas P S) data = Inl greater_than_quantity) \<and>
         (\<not> int (length inc) > q \<longrightarrow>
            load (AliceGetUrsulas P S) data =
              Inr \<lparr>known = d, unknown = unknown_keys (load_fields (AliceGetUrsulas P S)) data\<rparr>)"
  using assms(2-5)
  by (simp add: Alice_load_fields_pass [OF assms(1)] check_disjoint_cases check_quantity_cases
      fails_with_InvalidArgumentCombo_def get_or_empty_def)

text \<open>
  The specification's example: three addresses to include fail with quantity 2 and load
  with quantity 3.
\<close>

theorem include_within_quantity_witness:
  "load (AliceGetUrsulas PositiveInteger_spec StringList_spec)
     [''quantity'' \<mapsto> JInt 2,
      ''include_ursulas'' \<mapsto> JList [JStr ursula_A, JStr ursula_B, JStr ursula_C]]
     = Inl greater_than_quantity \<and>
   load (AliceGetUrsulas PositiveInteger_spec StringList_spec)
     [''quantity'' \<mapsto> JInt 3,
      ''include_ursulas'' \<mapsto> JList [JStr ursula_A, JStr ursula_B, JStr ursula_C]]
     = Inr \<lparr>known = \<lparr>quantity = Some 3, exclude_ursulas = None,
                      include_ursulas = Some [ursula_A, ursula_B, ursula_C]\<rparr>,
            unknown = unknown_keys (load_fields (AliceGetUrsulas PositiveInteger_spec StringList_spec))
              [''quantity'' \<mapsto> JInt 3,
               ''include_ursulas'' \<mapsto> JList [JStr ursula_A, JStr ursula_B, JStr ursula_C]]\<rparr>"
proof -
  let ?A = "AliceGetUrsulas PositiveInteger_spec StringList_spec"
  let ?inc = "[ursula_A, ursula_B, ursula_C]"
  have f2: "deserialize_fields (load_fields ?A)
      [''quantity'' \<mapsto> JInt 2, ''include_ursulas'' \<mapsto> JList (map JStr ?inc)]
      (empty_dict ?A) [] =
      Inr (\<lparr>quantity = Some 2, exclude_ursulas = None, include_ursulas = Some ?inc\<rparr>, [])"
    by (simp add: AliceGetUrsulas_def)
  have f3: "deserialize_fields (load_fields ?A)
      [''quantity'' \<mapsto> JInt 3, ''include_ursulas'' \<mapsto> JList (map JStr ?inc)]
      (empty_dict ?A) [] =
      Inr (\<lparr>quantity = Some 3, exclude_ursulas = None, include_ursulas = Some ?inc\<rparr>, [])"
    by (simp add: AliceGetUrsulas_def)
  from include_within_quantity [OF f2, of 2 ?inc] include_within_quantity [OF f3, of 3 ?inc]
  show ?thesis by (simp add: get_or_empty_def)
qed

text \<open>
  C1 as stated fails: one address, both included and excluded, with quantity 1 makes
  load fail with InvalidArgumentCombo although the include list is not longer than
  quantity.
\<close>

theorem include_within_quantity_counterexample:
  "\<not> (fails_with_InvalidArgumentCombo
        (load (AliceGetUrsulas PositiveInteger_spec StringList_spec)
           [''quantity'' \<mapsto> JInt 1,
            ''include_ursulas'' \<mapsto> JList [JStr ursula_A],
            ''exclude_ursulas'' \<mapsto> JList [JStr ursula_A]])
      \<longleftrightarrow> int (length [ursula_A]) > 1)"
proof -
  let ?A = "AliceGetUrsulas PositiveInteger_spec StringList_spec"
  have f: "deserialize_fields (load_fields ?A)
      [''quantity'' \<mapsto> JInt 1, ''include_ursulas'' \<mapsto> JList [JStr ursula_A],
       ''exclude_ursulas'' \<mapsto> JList [JStr ursula_A]]
      (empty_dict ?A) [] =
      Inr (\<lparr>quantity = Some 1, exclude_ursulas = Some [ursula_A], include_ursulas = Some [ursula_A]\<rparr>, [])"
    by (simp add: AliceGetUrsulas_def)
  show ?thesis
    by (simp add: Alice_load_fields_pass [OF f] check_disjoint_cases
        fails_with_InvalidArgumentCombo_def get_or_empty_def)
qed

text \<open>
  C2 (as amended). For AliceGetUrsulas, when the per-field phase has stored no error: if
  the include and exclude lists share an entry, load fails with InvalidArgumentCombo and
  the exception names exactly the set of shared entries, for every quantity; load fails
  with that exception only for shared entries; and load fails with InvalidArgumentCombo
  at all if and only if the lists share an entry or the include list is not empty and
  longer than quantity.
\<close>

theorem include_exclude_disjoint:
  assumes "deserialize_fields (load_fields (AliceGetUrsulas P S)) data
             (empty_dict (AliceGetUrsulas P S)) [] = Inr (d, [])"
    and "quantity d = Some q"
  shows "(set (get_or_empty (include_ursulas d)) \<inter> set (get_or_empty (exclude_ursulas d)) \<noteq> {} \<longrightarrow>
            load (AliceGetUrsulas P S) data =
              Inl (not_mutually_exclusive
                (set (get_or_empty (include_ursulas d)) \<inter> set (get_or_empty (exclude_ursulas d))))) \<and>
         (load (AliceGetUrsulas P S) data = Inl (not_mutually_exclusive common) \<longrightarrow>
            common = set (get_or_empty (include_ursulas d)) \<inter> set (get_or_empty (exclude_ursulas d)) \<and>
            common \<noteq> {}) \<and>
         (fails_with_InvalidArgumentCombo (load (AliceGetUrsulas P S) data) \<longleftrightarrow>
            set (get_or_empty (include_ursulas d)) \<inter> set (get_or_empty (exclude_ursulas d)) \<noteq> {} \<or>
            get_or_empty (include_ursulas d) \<noteq> [] \<and>
            int (length (get_or_empty (include_ursulas d))) > q)"
proof (cases "set (get_or_empty (include_ursulas d)) \<inter> set (get_or_empty (exclude_ursulas d)) = {}")
  case True
  with assms(2) show ?thesis
    by (simp add: Alice_load_fields_pass [OF assms(1)] check_disjoint_cases check_quantity_cases
        fails_with_InvalidArgumentCombo_def)
next
  case False
  then show ?thesis
    by (auto simp add: Alice_load_fields_pass [OF assms(1)] check_disjoint_cases
        fails_with_InvalidArgumentCombo_def)
qed

text \<open>
  The specification's example: include A, B and exclude B, C name B, here with quantity
  1; disjoint lists within quantity do not fail.
\<close>

theorem include_exclude_disjoint_witness:
  "load (AliceGetUrsulas PositiveInteger_spec StringList_spec)
     [''quantity'' \<mapsto> JInt 1,
      ''include_ursulas'' \<mapsto> JList [JStr ursula_A, JStr ursula_B],
      ''exclude_ursulas'' \<mapsto> JList [JStr ursula_B, JStr ursula_C]]
     = Inl (not_mutually_exclusive {ursula_B}) \<and>
   \<not> fails_with_InvalidArgumentCombo
     (load (AliceGetUrsulas PositiveInteger_spec StringList_spec)
       [''quantity'' \<mapsto> JInt 2,
        ''include_ursulas'' \<mapsto> JList [JStr ursula_A, JStr ursula_B],
        ''exclude_ursulas'' \<mapsto> JList [JStr ursula_C]])"
proof -
  let ?A = "AliceGetUrsulas PositiveInteger_spec StringList_spec"
  have f: "deserialize_fields (load_fields ?A)
      [''quantity'' \<mapsto> JInt 1,
       ''include_ursulas'' \<mapsto> JList [JStr ursula_A, JStr ursula_B],
       ''exclude_ursulas'' \<mapsto> JList [JStr ursula_B, JStr ursula_C]]
      (empty_dict ?A) [] =
      Inr (\<lparr>quantity = Some 1, exclude_ursulas = Some [ursula_B, ursula_C],
            include_ursulas = Some [ursula_A, ursula_B]\<rparr>, [])"
    by (simp add: AliceGetUrsulas_def)
  have f': "deserialize_fields (load_fields ?A)
      [''quantity'' \<mapsto> JInt 2,
       ''include_ursulas'' \<mapsto> JList [JStr ursula_A, JStr ursula_B],
       ''exclude_ursulas'' \<mapsto> JList [JStr ursula_C]]
      (empty_dict ?A) [] =
      Inr (\<lparr>quantity = Some 2, exclude_ursulas = Some [ursula_C],
            include_ursulas = Some [ursula_A, ursula_B]\<rparr>, [])"
    by (simp add: AliceGetUrsulas_def)
  have s: "set [ursula_A, ursula_B] \<inter> set [ursula_B, ursula_C] = {ursula_B}"
    by auto
  have s': "set [ursula_A, ursula_B] \<inter> set [ursula_C] = {}"
    by auto
  from include_exclude_disjoint [OF f, of 1 "{ursula_B}"]
  have 1: "load ?A
      [''quantity'' \<mapsto> JInt 1,
       ''include_ursulas'' \<mapsto> JList [JStr ursula_A, JStr ursula_B],
       ''exclude_ursulas'' \<mapsto> JList [JStr ursula_B, JStr ursula_C]]
     = Inl (not_mutually_exclusive {ursula_B})"
    by (simp add: get_or_empty_def s)
  from include_exclude_disjoint [OF f', of 2 "{}"]
  have 2: "\<not> fails_with_InvalidArgumentCombo
     (load ?A
       [''quantity'' \<mapsto> JInt 2,
        ''include_ursulas'' \<mapsto> JList [JStr ursula_A, JStr ursula_B],
        ''exclude_ursulas'' \<mapsto> JList [JStr ursula_C]])"
    by (simp add: get_or_empty_def s')
  from 1 2 show ?thesis by simp
qed

text \<open>
  C2 as stated fails: two addresses to include with quantity 1 and nothing to exclude
  make load fail with InvalidArgumentCombo although the lists share no entry.
\<close>

theorem include_exclude_disjoint_counterexample:
  "\<not> (fails_with_InvalidArgumentCombo
        (load (AliceGetUrsulas PositiveInteger_spec StringList_spec)
           [''quantity'' \<mapsto> JInt 1,
            ''include_ursulas'' \<mapsto> JList [JStr ursula_A, JStr ursula_B]])
      \<longleftrightarrow> set [ursula_A, ursula_B] \<inter> set ([] :: string list) \<noteq> {})"
proof -
  let ?A = "AliceGetUrsulas PositiveInteger_spec StringList_spec"
  have f: "deserialize_fields (load_fields ?A)
      [''quantity'' \<mapsto> JInt 1, ''include_ursulas'' \<mapsto> JList [JStr ursula_A, JStr ursula_B]]
      (empty_dict ?A) [] =
      Inr (\<lparr>quantity = Some 1, exclude_ursulas = None,
            include_ursulas = Some [ursula_A, ursula_B]\<rparr>, [])"
    by (simp add: AliceGetUrsulas_def)
  show ?thesis
    by (simp add: Alice_load_fields_pass [OF f] check_disjoint_cases check_quantity_cases
        fails_with_InvalidArgumentCombo_def get_or_empty_def)
qed

text \<open>
  C3 (as amended). Per-field failures that the engine is told of by a ValidationError
  are collected, not aborted on: when no field's decode raises another exception and at
  least one required field is missing or one decode is refused, load fails with
  InvalidInputData around the one ValidationError that maps exactly the failing fields,
  in field order, to their messages, and returns no result; when every present field
  decodes, these are exactly the missing required fields. A field whose decode raises
  any other exception ends load at once with that exception: load fails with the
  exception of the first field, in field order, whose decode raises, whatever was
  stored for the fields before it and whatever the fields after it would do.
\<close>

theorem per_field_errors_collected:
  "((\<forall>f \<in> set (load_fields sch). \<not> raises_on data f) \<and> field_failures (load_fields sch) data \<noteq> [] \<longrightarrow>
      load sch data = Inl (InvalidInputData (ValidationError (field_failures (load_fields sch) data))) \<and>
      map fst (field_failures (load_fields sch) data) =
        map field_name (filter (\<lambda>f. field_failure data f \<noteq> []) (load_fields sch))) \<and>
   ((\<forall>f \<in> set (load_fields sch). \<forall>v. data (field_name f) = Some v \<longrightarrow> (\<exists>s. deserialize f v = Ok s)) \<longrightarrow>
      map fst (field_failures (load_fields sch) data) =
        map field_name (filter (\<lambda>f. required f \<and> data (field_name f) = None) (load_fields sch))) \<and>
   (load_fields sch = fs1 @ f # fs2 \<and> (\<forall>g \<in> set fs1. \<not> raises_on data g) \<and>
    data (field_name f) = Some v \<and> deserialize f v = Raise e \<longrightarrow>
      load sch data = Inl e)"
proof (intro conjI impI)
  assume a: "(\<forall>f \<in> set (load_fields sch). \<not> raises_on data f) \<and> field_failures (load_fields sch) data \<noteq> []"
  then obtain d where "deserialize_fields (load_fields sch) data (empty_dict sch) [] =
      Inr (d, field_failures (load_fields sch) data)"
    using deserialize_fields_no_raise [of "load_fields sch" data "empty_dict sch" "[]"] by auto
  with a show "load sch data = Inl (InvalidInputData (ValidationError (field_failures (load_fields sch) data)))"
    by (simp add: load_field_errors)
next
  show "map fst (field_failures (load_fields sch) data) =
        map field_name (filter (\<lambda>f. field_failure data f \<noteq> []) (load_fields sch))"
    by (rule failing_names)
next
  assume "\<forall>f \<in> set (load_fields sch). \<forall>v. data (field_name f) = Some v \<longrightarrow> (\<exists>s. deserialize f v = Ok s)"
  then show "map fst (field_failures (load_fields sch) data) =
        map field_name (filter (\<lambda>f. required f \<and> data (field_name f) = None) (load_fields sch))"
    by (rule missing_names)
next
  assume a: "load_fields sch = fs1 @ f # fs2 \<and> (\<forall>g \<in> set fs1. \<not> raises_on data g) \<and>
    data (field_name f) = Some v \<and> deserialize f v = Raise e"
  then have "deserialize_fields (load_fields sch) data (empty_dict sch) [] = Inl e"
    by (simp add: deserialize_fields_first_raise)
  then show "load sch data = Inl e" by (simp add: load_def)
qed

text \<open>
  A null treasure map and the four other required fields, all missing, are reported
  together; with only quantity missing exactly quantity is named; a treasure map whose
  inner decode raises ends load with that exception.
\<close>

theorem per_field_errors_collected_witness:
  "load (BobRetrieveCFrags (raising ''Incorrect padding'' :: json \<Rightarrow> string + unit)
           (raising '''' :: unit \<Rightarrow> string + unit)
           (unreached :: json \<Rightarrow> unit list outcome)
           (\<lambda>name. unreached :: json \<Rightarrow> unit outcome) unreached)
     [''treasure_map'' \<mapsto> JNull]
   = Inl (InvalidInputData (ValidationError
       [(''treasure_map'', Messages [''Field may not be null.'']),
        (''retrieval_kits'', Messages [''Missing data for required field.'']),
        (''alice_verifying_key'', Messages [''Missing data for required field.'']),
        (''bob_encrypting_key'', Messages [''Missing data for required field.'']),
        (''bob_verifying_key'', Messages [''Missing data for required field.''])])) \<and>
   map fst (field_failures (load_fields (AliceGetUrsulas PositiveInteger_spec StringList_spec))
     [''exclude_ursulas'' \<mapsto> JList [JStr ursula_A]]) = [''quantity''] \<and>
   load (BobRetrieveCFrags (raising ''Incorrect padding'' :: json \<Rightarrow> string + unit)
           (raising '''' :: unit \<Rightarrow> string + unit)
           (unreached :: json \<Rightarrow> unit list outcome)
           (\<lambda>name. unreached :: json \<Rightarrow> unit outcome) unreached)
     [''treasure_map'' \<mapsto> JStr ''abc'']
   = Inl (InvalidInputData (Message
       ''Could not convert input for treasure_map to a TreasureMap: Incorrect padding''))"
proof -
  let ?A = "AliceGetUrsulas PositiveInteger_spec StringList_spec"
  let ?B = "BobRetrieveCFrags (raising ''Incorrect padding'' :: json \<Rightarrow> string + unit)
           (raising '''' :: unit \<Rightarrow> string + unit)
           (unreached :: json \<Rightarrow> unit list outcome)
           (\<lambda>name. unreached :: json \<Rightarrow> unit outcome) unreached"
  let ?data = "[''treasure_map'' \<mapsto> JNull]"
  let ?data' = "[''exclude_ursulas'' \<mapsto> JList [JStr ursula_A]]"
  let ?data'' = "[''treasure_map'' \<mapsto> JStr ''abc'']"
  let ?e = "InvalidInputData (Message
       ''Could not convert input for treasure_map to a TreasureMap: Incorrect padding'')"
  have nr: "\<forall>f \<in> set (load_fields ?B). \<not> raises_on ?data f"
    by (simp add: BobRetrieveCFrags_def raises_on_def Field_deserialize_def)
  have ff: "field_failures (load_fields ?B) ?data =
      [(''treasure_map'', Messages [''Field may not be null.'']),
        (''retrieval_kits'', Messages [''Missing data for required field.'']),
        (''alice_verifying_key'', Messages [''Missing data for required field.'']),
        (''bob_encrypting_key'', Messages [''Missing data for required field.'']),
        (''bob_verifying_key'', Messages [''Missing data for required field.''])]"
    by (simp add: BobRetrieveCFrags_def field_failures_def field_failure_def Field_deserialize_def)
  have ok: "\<forall>f \<in> set (load_fields ?A). \<forall>v. ?data' (field_name f) = Some v \<longrightarrow>
      (\<exists>s. deserialize f v = Ok s)"
    by (simp add: AliceGetUrsulas_def)
  have flt: "map field_name (filter (\<lambda>f. required f \<and> ?data' (field_name f) = None) (load_fields ?A))
      = [''quantity'']"
    by (simp add: AliceGetUrsulas_def)
  have split: "load_fields ?B = [] @ hd (load_fields ?B) # tl (load_fields ?B)"
    by (simp add: BobRetrieveCFrags_def)
  have r: "?data'' (field_name (hd (load_fields ?B))) = Some (JStr ''abc'') \<and>
      deserialize (hd (load_fields ?B)) (JStr ''abc'') = Raise ?e"
    by (simp add: BobRetrieveCFrags_def Field_deserialize_def TreasureMap_deserialize_def
        could_not_convert_def raising_def)
  from per_field_errors_collected [of ?B ?data] nr ff
  have 1: "load ?B ?data = Inl (InvalidInputData (ValidationError
       [(''treasure_map'', Messages [''Field may not be null.'']),
        (''retrieval_kits'', Messages [''Missing data for required field.'']),
        (''alice_verifying_key'', Messages [''Missing data for required field.'']),
        (''bob_encrypting_key'', Messages [''Missing data for required field.'']),
        (''bob_verifying_key'', Messages [''Missing data for required field.''])]))" by simp
  from per_field_errors_collected [of ?A ?data'] ok flt
  have 2: "map fst (field_failures (load_fields ?A) ?data') = [''quantity'']" by simp
  from per_field_errors_collected [of ?B ?data'' "[]" "hd (load_fields ?B)" "tl (load_fields ?B)"
      "JStr ''abc''" ?e] split r
  have 3: "load ?B ?data'' = Inl ?e" by simp
  from 1 2 3 show ?thesis by blast
qed

text \<open>
  C3 as stated fails: for BobRetrieveCFrags, a treasure map whose inner decode raises
  ends load with the InvalidInputData of \<^verbatim>\<open>TreasureMap._deserialize\<close> alone; the
  four required fields that are missing are not reported.
\<close>

theorem per_field_errors_collected_counterexample:
  "load (BobRetrieveCFrags (raising ''Incorrect padding'' :: json \<Rightarrow> string + unit)
           (raising '''' :: unit \<Rightarrow> string + unit)
           (unreached :: json \<Rightarrow> unit list outcome)
           (\<lambda>name. unreached :: json \<Rightarrow> unit outcome) unreached)
     [''treasure_map'' \<mapsto> JStr ''abc'']
   = Inl (InvalidInputData (Message
       ''Could not convert input for treasure_map to a TreasureMap: Incorrect padding'')) \<and>
   map fst (field_failures
     (load_fields (BobRetrieveCFrags (raising ''Incorrect padding'' :: json \<Rightarrow> string + unit)
           (raising '''' :: unit \<Rightarrow> string + unit)
           (unreached :: json \<Rightarrow> unit list outcome)
           (\<lambda>name. unreached :: json \<Rightarrow> unit outcome) unreached))
     [''treasure_map'' \<mapsto> JStr ''abc''])
   = [''retrieval_kits'', ''alice_verifying_key'', ''bob_encrypting_key'', ''bob_verifying_key'']"
  by (simp add: load_def BobRetrieveCFrags_def Field_deserialize_def TreasureMap_deserialize_def
      could_not_convert_def raising_def field_failures_def field_failure_def)

text \<open>
  C4 (as amended). The cross-field rules abort on the first failure, in the order in
  which the engine invokes the hooks, which is the order of the method names: the
  disjointness rule precedes the quantity rule. For every input whose per-field phase
  stored no error, a failure of the disjointness rule is what load fails with, whatever
  the quantity rule would say, and the quantity rule's failure is reported only when
  the disjointness rule passed. A hook that raises ends the run of the hooks, whichever
  hooks follow, so one load reports at most one cross-field error.
\<close>

theorem first_failing_rule_reported:
  assumes "deserialize_fields (load_fields (AliceGetUrsulas P S)) data
             (empty_dict (AliceGetUrsulas P S)) [] = Inr (d, [])"
    and "r = \<lparr>known = d, unknown = unknown_keys (load_fields (AliceGetUrsulas P S)) data\<rparr>"
  shows "(check_include_and_exclude_are_mutually_exclusive r = Raise e \<longrightarrow>
            load (AliceGetUrsulas P S) data = Inl e) \<and>
         (check_include_and_exclude_are_mutually_exclusive r = Ok () \<and>
          check_valid_quantity_and_include_ursulas r = Raise e \<longrightarrow>
            load (AliceGetUrsulas P S) data = Inl e) \<and>
         (snd h r = Raise e \<longrightarrow> invoke_schema_validators (h # hs) False r errors = Inl e)"
  using assms(2) by (simp add: Alice_load_fields_pass [OF assms(1)])

text \<open>
  With both rules violated the shared entry is reported; with disjoint lists the
  quantity rule's error is.
\<close>

theorem first_failing_rule_reported_witness:
  "load (AliceGetUrsulas PositiveInteger_spec StringList_spec)
     [''quantity'' \<mapsto> JInt 1,
      ''include_ursulas'' \<mapsto> JList [JStr ursula_A, JStr ursula_B],
      ''exclude_ursulas'' \<mapsto> JList [JStr ursula_A]]
     = Inl (not_mutually_exclusive {ursula_A}) \<and>
   load (AliceGetUrsulas PositiveInteger_spec StringList_spec)
     [''quantity'' \<mapsto> JInt 1,
      ''include_ursulas'' \<mapsto> JList [JStr ursula_A, JStr ursula_B],
      ''exclude_ursulas'' \<mapsto> JList [JStr ursula_C]]
     = Inl greater_than_quantity"
proof -
  let ?A = "AliceGetUrsulas PositiveInteger_spec StringList_spec"
  let ?data = "[''quantity'' \<mapsto> JInt 1,
      ''include_ursulas'' \<mapsto> JList [JStr ursula_A, JStr ursula_B],
      ''exclude_ursulas'' \<mapsto> JList [JStr ursula_A]]"
  let ?data' = "[''quantity'' \<mapsto> JInt 1,
      ''include_ursulas'' \<mapsto> JList [JStr ursula_A, JStr ursula_B],
      ''exclude_ursulas'' \<mapsto> JList [JStr ursula_C]]"
  have f: "deserialize_fields (load_fields ?A) ?data (empty_dict ?A) [] =
      Inr (\<lparr>quantity = Some 1, exclude_ursulas = Some [ursula_A],
            include_ursulas = Some [ursula_A, ursula_B]\<rparr>, [])"
    by (simp add: AliceGetUrsulas_def)
  have f': "deserialize_fields (load_fields ?A) ?data' (empty_dict ?A) [] =
      Inr (\<lparr>quantity = Some 1, exclude_ursulas = Some [ursula_C],
            include_ursulas = Some [ursula_A, ursula_B]\<rparr>, [])"
    by (simp add: AliceGetUrsulas_def)
  have s: "set [ursula_A, ursula_B] \<inter> set [ursula_A] = {ursula_A}" by auto
  from first_failing_rule_reported [OF f refl, of "not_mutually_exclusive {ursula_A}"]
    first_failing_rule_reported [OF f' refl, of greater_than_quantity]
  show ?thesis
    by (simp add: check_disjoint_cases check_quantity_cases get_or_empty_def s)
qed

text \<open>
  C4 as stated fails: with include A, B, exclude A and quantity 1 the rule declared
  first, quantity against include, fails on the loaded request, and load does not fail
  with that rule's error.
\<close>

theorem declaration_order_counterexample:
  "check_valid_quantity_and_include_ursulas
     \<lparr>known = \<lparr>quantity = Some 1, exclude_ursulas = Some [ursula_A],
                include_ursulas = Some [ursula_A, ursula_B]\<rparr>,
      unknown = unknown_keys (load_fields (AliceGetUrsulas PositiveInteger_spec StringList_spec))
        [''quantity'' \<mapsto> JInt 1,
         ''include_ursulas'' \<mapsto> JList [JStr ursula_A, JStr ursula_B],
         ''exclude_ursulas'' \<mapsto> JList [JStr ursula_A]]\<rparr>
     = Raise greater_than_quantity \<and>
   load (AliceGetUrsulas PositiveInteger_spec StringList_spec)
     [''quantity'' \<mapsto> JInt 1,
      ''include_ursulas'' \<mapsto> JList [JStr ursula_A, JStr ursula_B],
      ''exclude_ursulas'' \<mapsto> JList [JStr ursula_A]]
     \<noteq> Inl greater_than_quantity"
proof -
  let ?A = "AliceGetUrsulas PositiveInteger_spec StringList_spec"
  let ?data = "[''quantity'' \<mapsto> JInt 1,
      ''include_ursulas'' \<mapsto> JList [JStr ursula_A, JStr ursula_B],
      ''exclude_ursulas'' \<mapsto> JList [JStr ursula_A]]"
  have f: "deserialize_fields (load_fields ?A) ?data (empty_dict ?A) [] =
      Inr (\<lparr>quantity = Some 1, exclude_ursulas = Some [ursula_A],
            include_ursulas = Some [ursula_A, ursula_B]\<rparr>, [])"
    by (simp add: AliceGetUrsulas_def)
  show ?thesis
    by (simp add: Alice_load_fields_pass [OF f] check_disjoint_cases check_quantity_cases
        get_or_empty_def)
qed

text \<open>
  C5. For the three schemas, keys that are the name of no load field never make load
  fail: load of a raw dict extended by such keys fails exactly as load of the dict
  without them, and where that succeeds, gives the same declared fields and carries the
  added keys with their raw values. AliceRevoke, which declares nothing, returns every
  key as it came.
\<close>

theorem unknown_keys_pass_through:
  "(undeclared_by (AliceGetUrsulas P S) extra \<longrightarrow>
      load (AliceGetUrsulas P S) (data ++ extra) =
        map_sum id (\<lambda>r. r\<lparr>unknown := unknown r ++ extra\<rparr>) (load (AliceGetUrsulas P S) data)) \<and>
   (undeclared_by (BobRetrieveCFrags B F L K J) extra \<longrightarrow>
      load (BobRetrieveCFrags B F L K J) (data ++ extra) =
        map_sum id (\<lambda>r. r\<lparr>unknown := unknown r ++ extra\<rparr>) (load (BobRetrieveCFrags B F L K J) data)) \<and>
   load AliceRevoke data = Inr \<lparr>known = (), unknown = data\<rparr>"
proof (intro conjI impI)
  assume "undeclared_by (AliceGetUrsulas P S) extra"
  then show "load (AliceGetUrsulas P S) (data ++ extra) =
        map_sum id (\<lambda>r. r\<lparr>unknown := unknown r ++ extra\<rparr>) (load (AliceGetUrsulas P S) data)"
    by (rule load_extra) (rule Alice_rules_ignore_unknown)
next
  assume "undeclared_by (BobRetrieveCFrags B F L K J) extra"
  then show "load (BobRetrieveCFrags B F L K J) (data ++ extra) =
        map_sum id (\<lambda>r. r\<lparr>unknown := unknown r ++ extra\<rparr>) (load (BobRetrieveCFrags B F L K J) data)"
    by (rule load_extra) (simp add: BobRetrieveCFrags_def)
next
  show "load AliceRevoke data = Inr \<lparr>known = (), unknown = data\<rparr>"
    by (simp add: load_def AliceRevoke_def resolve_hooks_Nil unknown_keys_def)
qed

text \<open>
  A note and an ursulas key (a dump-only field is no load field) pass through
  AliceGetUrsulas; an added note does not change how BobRetrieveCFrags fails.
\<close>

theorem unknown_keys_pass_through_witness:
  "load (AliceGetUrsulas PositiveInteger_spec StringList_spec)
     ([''quantity'' \<mapsto> JInt 2] ++ [''note'' \<mapsto> JStr ''hello'', ''ursulas'' \<mapsto> JList []])
   = Inr \<lparr>known = \<lparr>quantity = Some 2, exclude_ursulas = None, include_ursulas = None\<rparr>,
          unknown = unknown_keys (load_fields (AliceGetUrsulas PositiveInteger_spec StringList_spec))
                      [''quantity'' \<mapsto> JInt 2]
                    ++ [''note'' \<mapsto> JStr ''hello'', ''ursulas'' \<mapsto> JList []]\<rparr> \<and>
   load (BobRetrieveCFrags (raising ''Incorrect padding'' :: json \<Rightarrow> string + unit)
           (raising '''' :: unit \<Rightarrow> string + unit)
           (unreached :: json \<Rightarrow> unit list outcome)
           (\<lambda>name. unreached :: json \<Rightarrow> unit outcome) unreached)
     ([''treasure_map'' \<mapsto> JStr ''abc''] ++ [''note'' \<mapsto> JStr ''hello''])
   = Inl (InvalidInputData (Message
       ''Could not convert input for treasure_map to a TreasureMap: Incorrect padding''))"
proof -
  let ?A = "AliceGetUrsulas PositiveInteger_spec StringList_spec"
  let ?B = "BobRetrieveCFrags (raising ''Incorrect padding'' :: json \<Rightarrow> string + unit)
           (raising '''' :: unit \<Rightarrow> string + unit)
           (unreached :: json \<Rightarrow> unit list outcome)
           (\<lambda>name. unreached :: json \<Rightarrow> unit outcome) unreached"
  let ?extra = "[''note'' \<mapsto> JStr ''hello'', ''ursulas'' \<mapsto> JList []]"
  let ?extra' = "[''note'' \<mapsto> JStr ''hello'']"
  have u: "undeclared_by ?A ?extra"
    by (simp add: undeclared_by_def AliceGetUrsulas_def)
  have u': "undeclared_by ?B ?extra'"
    by (simp add: undeclared_by_def BobRetrieveCFrags_def)
  have f: "deserialize_fields (load_fields ?A) [''quantity'' \<mapsto> JInt 2] (empty_dict ?A) [] =
      Inr (\<lparr>quantity = Some 2, exclude_ursulas = None, include_ursulas = None\<rparr>, [])"
    by (simp add: AliceGetUrsulas_def)
  have l: "load ?A [''quantity'' \<mapsto> JInt 2] =
      Inr \<lparr>known = \<lparr>quantity = Some 2, exclude_ursulas = None, include_ursulas = None\<rparr>,
           unknown = unknown_keys (load_fields ?A) [''quantity'' \<mapsto> JInt 2]\<rparr>"
    by (simp add: Alice_load_fields_pass [OF f] check_disjoint_cases check_quantity_cases
        get_or_empty_def)
  have l': "load ?B [''treasure_map'' \<mapsto> JStr ''abc''] = Inl (InvalidInputData (Message
       ''Could not convert input for treasure_map to a TreasureMap: Incorrect padding''))"
    by (simp add: load_def BobRetrieveCFrags_def Field_deserialize_def TreasureMap_deserialize_def
      could_not_convert_def raising_def)
  from unknown_keys_pass_through [of PositiveInteger_spec StringList_spec ?extra]
  have 1: "load ?A ([''quantity'' \<mapsto> JInt 2] ++ ?extra) =
     map_sum id (\<lambda>r. r\<lparr>unknown := unknown r ++ ?extra\<rparr>) (load ?A [''quantity'' \<mapsto> JInt 2])"
    using u by blast
  from unknown_keys_pass_through [where extra = ?extra' and B = "raising ''Incorrect padding'' :: json \<Rightarrow> string + unit"
      and F = "raising '''' :: unit \<Rightarrow> string + unit" and L = "unreached :: json \<Rightarrow> unit list outcome"
      and K = "\<lambda>name. unreached :: json \<Rightarrow> unit outcome" and J = unreached]
  have 2: "load ?B ([''treasure_map'' \<mapsto> JStr ''abc''] ++ ?extra') =
     map_sum id (\<lambda>r. r\<lparr>unknown := unknown r ++ ?extra'\<rparr>) (load ?B [''treasure_map'' \<mapsto> JStr ''abc''])"
    using u' by blast
  from 1 2 show ?thesis unfolding l l' by simp
qed

text \<open>
  C6. For every raw value, if the inner bytes decode or the parser raises an exception,
  \<^verbatim>\<open>TreasureMap._deserialize\<close> raises InvalidInputData whose message holds the field
  name and the text of that exception; when both return, the parsed object is the
  result; no ValidationError and no exception of another type leaves the decode.
\<close>

theorem TreasureMap_decode_errors:
  "(super_deserialize value = Inl e \<longrightarrow>
      TreasureMap_deserialize name super_deserialize from_bytes value =
        Raise (InvalidInputData (Message
          (''Could not convert input for '' @ name @ '' to a TreasureMap: '' @ e)))) \<and>
   (super_deserialize value = Inr bytes \<and> from_bytes bytes = Inl e \<longrightarrow>
      TreasureMap_deserialize name super_deserialize from_bytes value =
        Raise (InvalidInputData (Message
          (''Could not convert input for '' @ name @ '' to a TreasureMap: '' @ e)))) \<and>
   (super_deserialize value = Inr bytes \<and> from_bytes bytes = Inr tm \<longrightarrow>
      TreasureMap_deserialize name super_deserialize from_bytes value = Ok tm) \<and>
   TreasureMap_deserialize name super_deserialize from_bytes value \<noteq> Invalid msgs \<and>
   (TreasureMap_deserialize name super_deserialize from_bytes value = Raise x \<longrightarrow>
      (\<exists>text. x = InvalidInputData (Message text)))"
  by (auto simp: TreasureMap_deserialize_def could_not_convert_def split: sum.splits)

text \<open>The decode with a raising inner decode, a raising parser, and neither.\<close>

theorem TreasureMap_decode_errors_witness:
  "TreasureMap_deserialize ''treasure_map'' (raising ''Incorrect padding'')
      (raising '''' :: unit \<Rightarrow> string + unit) (JStr ''abc'')
     = Raise (InvalidInputData (Message
         ''Could not convert input for treasure_map to a TreasureMap: Incorrect padding'')) \<and>
   TreasureMap_deserialize ''treasure_map'' (\<lambda>v. Inr [0 :: nat])
      (raising ''cannot parse'' :: nat list \<Rightarrow> string + unit) (JStr ''AA=='')
     = Raise (InvalidInputData (Message
         ''Could not convert input for treasure_map to a TreasureMap: cannot parse'')) \<and>
   TreasureMap_deserialize ''treasure_map'' (\<lambda>v. Inr [0 :: nat])
      (\<lambda>b. Inr (length b) :: string + nat) (JStr ''AA=='') = Ok 1"
  using TreasureMap_decode_errors [of "raising ''Incorrect padding''" "JStr ''abc''"
      "''Incorrect padding''" "''treasure_map''" "raising '''' :: unit \<Rightarrow> string + unit"]
    TreasureMap_decode_errors [of "\<lambda>v. Inr [0 :: nat]" "JStr ''AA==''" "''cannot parse''"
      "''treasure_map''" "raising ''cannot parse'' :: nat list \<Rightarrow> string + unit" "[0]"]
    TreasureMap_decode_errors [of "\<lambda>v. Inr [0 :: nat]" "JStr ''AA==''" _
      "''treasure_map''" "\<lambda>b. Inr (length b) :: string + nat" "[0]" 1]
  by (simp add: raising_def)

text \<open>
  C7. On a loaded request without include_ursulas neither rule fails, whatever quantity
  and exclude_ursulas are; a raw input without include_ursulas loads as it would under
  the schema with no cross-field rule; and when the per-field phase stored an error,
  load fails with the aggregate of the field errors and no rule is run.
\<close>

theorem rules_need_include_list:
  "(include_ursulas (known r) = None \<longrightarrow>
      check_valid_quantity_and_include_ursulas r = Ok () \<and>
      check_include_and_exclude_are_mutually_exclusive r = Ok ()) \<and>
   (data ''include_ursulas'' = None \<longrightarrow>
      load (AliceGetUrsulas P S) data = load (AliceGetUrsulas P S\<lparr>validators := []\<rparr>) data) \<and>
   (deserialize_fields (load_fields (AliceGetUrsulas P S)) data
      (empty_dict (AliceGetUrsulas P S)) [] = Inr (d, errors) \<and> errors \<noteq> [] \<longrightarrow>
      load (AliceGetUrsulas P S) data = Inl (InvalidInputData (ValidationError errors)) \<and>
      load (AliceGetUrsulas P S) data = load (AliceGetUrsulas P S\<lparr>validators := []\<rparr>) data)"
proof (intro conjI impI)
  assume "include_ursulas (known r) = None"
  then show "check_valid_quantity_and_include_ursulas r = Ok ()"
    and "check_include_and_exclude_are_mutually_exclusive r = Ok ()"
    by (simp_all add: check_disjoint_cases check_quantity_cases get_or_empty_def)
next
  let ?A = "AliceGetUrsulas P S"
  assume none: "data ''include_ursulas'' = None"
  show "load ?A data = load (?A\<lparr>validators := []\<rparr>) data"
  proof (cases "deserialize_fields (load_fields ?A) data (empty_dict ?A) []")
    case (Inl e)
    then show ?thesis by (simp add: load_def)
  next
    case (Inr p)
    obtain d errs where p: "p = (d, errs)" by (cases p)
    from Inr p Alice_fields_result(1) [of P S data d errs] none
    have inc: "include_ursulas d = None" by simp
    show ?thesis
    proof (cases "errs = []")
      case True
      with Inr p inc show ?thesis
        by (simp add: load_def Alice_rules resolve_hooks_Nil check_disjoint_cases
            check_quantity_cases get_or_empty_def Let_def)
    next
      case False
      with Inr p show ?thesis
        by (simp add: load_def validators_skipped Let_def)
    qed
  qed
next
  let ?A = "AliceGetUrsulas P S"
  assume a: "deserialize_fields (load_fields ?A) data (empty_dict ?A) [] = Inr (d, errors) \<and> errors \<noteq> []"
  then show "load ?A data = Inl (InvalidInputData (ValidationError errors))"
    by (simp add: load_field_errors)
  from a show "load ?A data = load (?A\<lparr>validators := []\<rparr>) data"
    by (simp add: load_def validators_skipped Let_def)
qed

text \<open>
  An excluded address without an include list loads; a missing quantity is reported
  alone although the address is both included and excluded.
\<close>

theorem rules_need_include_list_witness:
  "check_valid_quantity_and_include_ursulas
     \<lparr>known = \<lparr>quantity = Some 1, exclude_ursulas = Some [ursula_A], include_ursulas = None\<rparr>,
      unknown = Map.empty\<rparr> = Ok () \<and>
   check_include_and_exclude_are_mutually_exclusive
     \<lparr>known = \<lparr>quantity = Some 1, exclude_ursulas = Some [ursula_A], include_ursulas = None\<rparr>,
      unknown = Map.empty\<rparr> = Ok () \<and>
   load (AliceGetUrsulas PositiveInteger_spec StringList_spec)
     [''quantity'' \<mapsto> JInt 1, ''exclude_ursulas'' \<mapsto> JList [JStr ursula_A]] =
   load (AliceGetUrsulas PositiveInteger_spec StringList_spec\<lparr>validators := []\<rparr>)
     [''quantity'' \<mapsto> JInt 1, ''exclude_ursulas'' \<mapsto> JList [JStr ursula_A]] \<and>
   load (AliceGetUrsulas PositiveInteger_spec StringList_spec)
     [''include_ursulas'' \<mapsto> JList [JStr ursula_A], ''exclude_ursulas'' \<mapsto> JList [JStr ursula_A]] =
   Inl (InvalidInputData (ValidationError
     [(''quantity'', Messages [''Missing data for required field.''])]))"
proof -
  let ?A = "AliceGetUrsulas PositiveInteger_spec StringList_spec"
  let ?r = "\<lparr>known = \<lparr>quantity = Some 1, exclude_ursulas = Some [ursula_A], include_ursulas = None\<rparr>,
      unknown = Map.empty\<rparr>"
  let ?data = "[''quantity'' \<mapsto> JInt 1, ''exclude_ursulas'' \<mapsto> JList [JStr ursula_A]]"
  let ?data' = "[''include_ursulas'' \<mapsto> JList [JStr ursula_A],
      ''exclude_ursulas'' \<mapsto> JList [JStr ursula_A]]"
  have f: "deserialize_fields (load_fields ?A) ?data' (empty_dict ?A) [] =
      Inr (\<lparr>quantity = None, exclude_ursulas = Some [ursula_A], include_ursulas = Some [ursula_A]\<rparr>,
           [(''quantity'', Messages [''Missing data for required field.''])])"
    by (simp add: AliceGetUrsulas_def)
  from rules_need_include_list [of ?r ?data PositiveInteger_spec StringList_spec]
  have 1: "check_valid_quantity_and_include_ursulas ?r = Ok () \<and>
      check_include_and_exclude_are_mutually_exclusive ?r = Ok () \<and>
      load ?A ?data = load (?A\<lparr>validators := []\<rparr>) ?data"
    by simp
  from rules_need_include_list [of _ ?data' PositiveInteger_spec StringList_spec _
      "[(''quantity'', Messages [''Missing data for required field.''])]"] f
  have 2: "load ?A ?data' =
      Inl (InvalidInputData (ValidationError [(''quantity'', Messages [''Missing data for required field.''])]))"
    by simp
  from 1 2 show ?thesis by simp
qed

text \<open>
  C9. The quantity rule passes on an absent and on an empty include list for every
  value of quantity, a missing quantity key included; it raises KeyError only if the
  include list is present and not empty while quantity is missing; and after a
  per-field phase without error quantity is in the dict, so inside load the rule's
  lookup of quantity does not fail.
\<close>

theorem empty_include_reads_no_quantity:
  "(include_ursulas (known r) = None \<or> include_ursulas (known r) = Some [] \<longrightarrow>
      check_valid_quantity_and_include_ursulas (r\<lparr>known := (known r)\<lparr>quantity := x\<rparr>\<rparr>) = Ok ()) \<and>
   (check_valid_quantity_and_include_ursulas r = Raise (KeyError k) \<longrightarrow>
      (\<exists>us. include_ursulas (known r) = Some us \<and> us \<noteq> []) \<and> quantity (known r) = None) \<and>
   (deserialize_fields (load_fields (AliceGetUrsulas P S)) data
      (empty_dict (AliceGetUrsulas P S)) [] = Inr (d, []) \<longrightarrow>
      quantity d \<noteq> None \<and>
      check_valid_quantity_and_include_ursulas \<lparr>known = d, unknown = u\<rparr> \<noteq> Raise (KeyError k))"
proof (intro conjI impI)
  assume "include_ursulas (known r) = None \<or> include_ursulas (known r) = Some []"
  then show "check_valid_quantity_and_include_ursulas (r\<lparr>known := (known r)\<lparr>quantity := x\<rparr>\<rparr>) = Ok ()"
    by (auto simp: check_valid_quantity_and_include_ursulas_def)
next
  assume a: "check_valid_quantity_and_include_ursulas r = Raise (KeyError k)"
  then show "\<exists>us. include_ursulas (known r) = Some us \<and> us \<noteq> []"
    by (auto simp: check_valid_quantity_and_include_ursulas_def split: option.splits if_splits)
  from a show "quantity (known r) = None"
    by (auto simp: check_valid_quantity_and_include_ursulas_def split: option.splits if_splits)
next
  assume a: "deserialize_fields (load_fields (AliceGetUrsulas P S)) data
      (empty_dict (AliceGetUrsulas P S)) [] = Inr (d, [])"
  from Alice_fields_result(3) [OF a] show q: "quantity d \<noteq> None" by simp
  then show "check_valid_quantity_and_include_ursulas \<lparr>known = d, unknown = u\<rparr> \<noteq> Raise (KeyError k)"
    by (auto simp: check_valid_quantity_and_include_ursulas_def split: option.splits if_splits)
qed

text \<open>
  The rule on an empty include list without quantity and with a negative quantity, and
  on a non-empty list without and with quantity.
\<close>

theorem empty_include_reads_no_quantity_witness:
  "check_valid_quantity_and_include_ursulas
     \<lparr>known = \<lparr>quantity = None, exclude_ursulas = None, include_ursulas = Some []\<rparr>,
      unknown = Map.empty\<rparr> = Ok () \<and>
   check_valid_quantity_and_include_ursulas
     \<lparr>known = \<lparr>quantity = Some (- 5), exclude_ursulas = None, include_ursulas = Some []\<rparr>,
      unknown = Map.empty\<rparr> = Ok () \<and>
   check_valid_quantity_and_include_ursulas
     \<lparr>known = \<lparr>quantity = None, exclude_ursulas = None, include_ursulas = Some [ursula_A]\<rparr>,
      unknown = Map.empty\<rparr> = Raise (KeyError ''quantity'') \<and>
   check_valid_quantity_and_include_ursulas
     \<lparr>known = \<lparr>quantity = Some 1, exclude_ursulas = None, include_ursulas = Some [ursula_A]\<rparr>,
      unknown = Map.empty\<rparr> \<noteq> Raise (KeyError ''quantity'')"
proof -
  let ?A = "AliceGetUrsulas PositiveInteger_spec StringList_spec"
  let ?r = "\<lparr>known = \<lparr>quantity = None, exclude_ursulas = None, include_ursulas = Some []\<rparr>,
      unknown = Map.empty\<rparr>"
  let ?r' = "\<lparr>known = \<lparr>quantity = None, exclude_ursulas = None, include_ursulas = Some [ursula_A]\<rparr>,
      unknown = Map.empty\<rparr>"
  let ?data = "[''quantity'' \<mapsto> JInt 1, ''include_ursulas'' \<mapsto> JList [JStr ursula_A]]"
  have f: "deserialize_fields (load_fields ?A) ?data (empty_dict ?A) [] =
      Inr (\<lparr>quantity = Some 1, exclude_ursulas = None, include_ursulas = Some [ursula_A]\<rparr>, [])"
    by (simp add: AliceGetUrsulas_def)
  have k: "check_valid_quantity_and_include_ursulas ?r' = Raise (KeyError ''quantity'')"
    by (simp add: check_valid_quantity_and_include_ursulas_def)
  from empty_include_reads_no_quantity [of ?r None]
  have 1: "check_valid_quantity_and_include_ursulas ?r = Ok ()" by simp
  from empty_include_reads_no_quantity [of ?r "Some (- 5)"]
  have 2: "check_valid_quantity_and_include_ursulas
     \<lparr>known = \<lparr>quantity = Some (- 5), exclude_ursulas = None, include_ursulas = Some []\<rparr>,
      unknown = Map.empty\<rparr> = Ok ()" by simp
  from empty_include_reads_no_quantity [where r = ?r' and k = "''quantity''"] k
  have 3: "(\<exists>us. include_ursulas (known ?r') = Some us \<and> us \<noteq> []) \<and> quantity (known ?r') = None"
    by blast
  from empty_include_reads_no_quantity [where P = PositiveInteger_spec and S = StringList_spec
      and data = ?data and k = "''quantity''" and u = Map.empty
      and d = "\<lparr>quantity = Some 1, exclude_ursulas = None, include_ursulas = Some [ursula_A]\<rparr>"] f
  have 4: "check_valid_quantity_and_include_ursulas
     \<lparr>known = \<lparr>quantity = Some 1, exclude_ursulas = None, include_ursulas = Some [ursula_A]\<rparr>,
      unknown = Map.empty\<rparr> \<noteq> Raise (KeyError ''quantity'')" by blast
  from 1 2 k 3 4 show ?thesis by simp
qed

text \<open>
  C10 (as amended). The disjointness rule depends only on the sets of entries: two
  loaded requests whose include lists have the same entries and whose exclude lists
  have the same entries make the rule fail alike and name the same set. For load as a
  whole, two inputs that pass the per-field phase with the same quantity, the same sets
  of entries and include lists of the same length (any permutation of either list, any
  duplication in exclude_ursulas) fail with the same exceptions.
\<close>

theorem disjointness_depends_on_sets:
  "(set (get_or_empty (include_ursulas (known r))) = set (get_or_empty (include_ursulas (known r'))) \<and>
    set (get_or_empty (exclude_ursulas (known r))) = set (get_or_empty (exclude_ursulas (known r'))) \<longrightarrow>
      check_include_and_exclude_are_mutually_exclusive r =
      check_include_and_exclude_are_mutually_exclusive r') \<and>
   (deserialize_fields (load_fields (AliceGetUrsulas P S)) data
      (empty_dict (AliceGetUrsulas P S)) [] = Inr (d, []) \<and>
    deserialize_fields (load_fields (AliceGetUrsulas P S)) data'
      (empty_dict (AliceGetUrsulas P S)) [] = Inr (d', []) \<and>
    quantity d = quantity d' \<and>
    set (get_or_empty (include_ursulas d)) = set (get_or_empty (include_ursulas d')) \<and>
    set (get_or_empty (exclude_ursulas d)) = set (get_or_empty (exclude_ursulas d')) \<and>
    length (get_or_empty (include_ursulas d)) = length (get_or_empty (include_ursulas d')) \<longrightarrow>
      (\<forall>e. load (AliceGetUrsulas P S) data = Inl e \<longleftrightarrow> load (AliceGetUrsulas P S) data' = Inl e))"
proof (intro conjI impI allI)
  assume "set (get_or_empty (include_ursulas (known r))) = set (get_or_empty (include_ursulas (known r'))) \<and>
    set (get_or_empty (exclude_ursulas (known r))) = set (get_or_empty (exclude_ursulas (known r')))"
  then show "check_include_and_exclude_are_mutually_exclusive r =
      check_include_and_exclude_are_mutually_exclusive r'"
    by (simp add: check_disjoint_cases)
next
  fix e
  let ?A = "AliceGetUrsulas P S"
  assume a: "deserialize_fields (load_fields ?A) data (empty_dict ?A) [] = Inr (d, []) \<and>
    deserialize_fields (load_fields ?A) data' (empty_dict ?A) [] = Inr (d', []) \<and>
    quantity d = quantity d' \<and>
    set (get_or_empty (include_ursulas d)) = set (get_or_empty (include_ursulas d')) \<and>
    set (get_or_empty (exclude_ursulas d)) = set (get_or_empty (exclude_ursulas d')) \<and>
    length (get_or_empty (include_ursulas d)) = length (get_or_empty (include_ursulas d'))"
  then have f: "deserialize_fields (load_fields ?A) data (empty_dict ?A) [] = Inr (d, [])"
    and f': "deserialize_fields (load_fields ?A) data' (empty_dict ?A) [] = Inr (d', [])"
    and q: "quantity d = quantity d'"
    and si: "set (get_or_empty (include_ursulas d)) = set (get_or_empty (include_ursulas d'))"
    and se: "set (get_or_empty (exclude_ursulas d)) = set (get_or_empty (exclude_ursulas d'))"
    and l: "length (get_or_empty (include_ursulas d)) = length (get_or_empty (include_ursulas d'))"
    by simp_all
  from l have em: "get_or_empty (include_ursulas d) = [] \<longleftrightarrow> get_or_empty (include_ursulas d') = []"
    by (metis length_0_conv)
  show "load ?A data = Inl e \<longleftrightarrow> load ?A data' = Inl e"
    by (simp add: Alice_load_fields_pass [OF f] Alice_load_fields_pass [OF f']
        check_disjoint_cases check_quantity_cases q si se l em split: option.splits)
qed

text \<open>
  Swapping the include list and repeating an excluded address changes nothing; the rule
  alone is also blind to repeated included addresses.
\<close>

theorem disjointness_depends_on_sets_witness:
  "load (AliceGetUrsulas PositiveInteger_spec StringList_spec)
     [''quantity'' \<mapsto> JInt 5,
      ''include_ursulas'' \<mapsto> JList [JStr ursula_B, JStr ursula_A],
      ''exclude_ursulas'' \<mapsto> JList [JStr ursula_B, JStr ursula_C, JStr ursula_B]]
   = Inl (not_mutually_exclusive {ursula_B}) \<and>
   check_include_and_exclude_are_mutually_exclusive
     \<lparr>known = \<lparr>quantity = None, exclude_ursulas = Some [ursula_B, ursula_B],
                include_ursulas = Some [ursula_B, ursula_A, ursula_A]\<rparr>, unknown = Map.empty\<rparr>
   = check_include_and_exclude_are_mutually_exclusive
     \<lparr>known = \<lparr>quantity = None, exclude_ursulas = Some [ursula_B],
                include_ursulas = Some [ursula_A, ursula_B]\<rparr>, unknown = Map.empty\<rparr>"
proof -
  let ?A = "AliceGetUrsulas PositiveInteger_spec StringList_spec"
  let ?data = "[''quantity'' \<mapsto> JInt 5,
      ''include_ursulas'' \<mapsto> JList [JStr ursula_A, JStr ursula_B],
      ''exclude_ursulas'' \<mapsto> JList [JStr ursula_B, JStr ursula_C]]"
  let ?data' = "[''quantity'' \<mapsto> JInt 5,
      ''include_ursulas'' \<mapsto> JList [JStr ursula_B, JStr ursula_A],
      ''exclude_ursulas'' \<mapsto> JList [JStr ursula_B, JStr ursula_C, JStr ursula_B]]"
  let ?d = "\<lparr>quantity = Some 5, exclude_ursulas = Some [ursula_B, ursula_C],
            include_ursulas = Some [ursula_A, ursula_B]\<rparr>"
  let ?d' = "\<lparr>quantity = Some 5, exclude_ursulas = Some [ursula_B, ursula_C, ursula_B],
            include_ursulas = Some [ursula_B, ursula_A]\<rparr>"
  let ?r = "\<lparr>known = \<lparr>quantity = None, exclude_ursulas = Some [ursula_B, ursula_B],
                include_ursulas = Some [ursula_B, ursula_A, ursula_A]\<rparr>, unknown = Map.empty\<rparr>"
  let ?r' = "\<lparr>known = \<lparr>quantity = None, exclude_ursulas = Some [ursula_B],
                include_ursulas = Some [ursula_A, ursula_B]\<rparr>, unknown = Map.empty\<rparr>"
  have f: "deserialize_fields (load_fields ?A) ?data (empty_dict ?A) [] = Inr (?d, [])"
    by (simp add: AliceGetUrsulas_def)
  have f': "deserialize_fields (load_fields ?A) ?data' (empty_dict ?A) [] = Inr (?d', [])"
    by (simp add: AliceGetUrsulas_def)
  have s: "set [ursula_A, ursula_B] \<inter> set [ursula_B, ursula_C] = {ursula_B}" by auto
  have l: "load ?A ?data = Inl (not_mutually_exclusive {ursula_B})"
    by (simp add: Alice_load_fields_pass [OF f] check_disjoint_cases get_or_empty_def s)
  have si: "set (get_or_empty (include_ursulas ?d)) = set (get_or_empty (include_ursulas ?d'))"
    by (auto simp: get_or_empty_def)
  have se: "set (get_or_empty (exclude_ursulas ?d)) = set (get_or_empty (exclude_ursulas ?d'))"
    by (auto simp: get_or_empty_def)
  have sr: "set (get_or_empty (include_ursulas (known ?r))) = set (get_or_empty (include_ursulas (known ?r'))) \<and>
    set (get_or_empty (exclude_ursulas (known ?r))) = set (get_or_empty (exclude_ursulas (known ?r')))"
    by (auto simp: get_or_empty_def)
  from disjointness_depends_on_sets [of ?r ?r' PositiveInteger_spec StringList_spec ?data ?d ?data' ?d']
    f f' si se
  have 1: "\<forall>e. load ?A ?data = Inl e \<longleftrightarrow> load ?A ?data' = Inl e"
    by (simp add: get_or_empty_def)
  from disjointness_depends_on_sets [of ?r ?r'] sr
  have 2: "check_include_and_exclude_are_mutually_exclusive ?r =
      check_include_and_exclude_are_mutually_exclusive ?r'"
    by blast
  from 1 l have "load ?A ?data' = Inl (not_mutually_exclusive {ursula_B})" by blast
  with 2 show ?thesis by simp
qed

text \<open>
  C10 as stated fails: repeating the one included address keeps the set and makes load
  fail with InvalidArgumentCombo, through the quantity rule.
\<close>

theorem disjointness_depends_on_sets_counterexample:
  "set [ursula_A, ursula_A] = set [ursula_A] \<and>
   fails_with_InvalidArgumentCombo
     (load (AliceGetUrsulas PositiveInteger_spec StringList_spec)
        [''quantity'' \<mapsto> JInt 1, ''include_ursulas'' \<mapsto> JList [JStr ursula_A, JStr ursula_A]]) \<and>
   \<not> fails_with_InvalidArgumentCombo
     (load (AliceGetUrsulas PositiveInteger_spec StringList_spec)
        [''quantity'' \<mapsto> JInt 1, ''include_ursulas'' \<mapsto> JList [JStr ursula_A]])"
proof -
  let ?A = "AliceGetUrsulas PositiveInteger_spec StringList_spec"
  have f: "deserialize_fields (load_fields ?A)
      [''quantity'' \<mapsto> JInt 1, ''include_ursulas'' \<mapsto> JList [JStr ursula_A, JStr ursula_A]]
      (empty_dict ?A) [] =
      Inr (\<lparr>quantity = Some 1, exclude_ursulas = None,
            include_ursulas = Some [ursula_A, ursula_A]\<rparr>, [])"
    by (simp add: AliceGetUrsulas_def)
  have f': "deserialize_fields (load_fields ?A)
      [''quantity'' \<mapsto> JInt 1, ''include_ursulas'' \<mapsto> JList [JStr ursula_A]]
      (empty_dict ?A) [] =
      Inr (\<lparr>quantity = Some 1, exclude_ursulas = None, include_ursulas = Some [ursula_A]\<rparr>, [])"
    by (simp add: AliceGetUrsulas_def)
  show ?thesis
    by (simp add: Alice_load_fields_pass [OF f] Alice_load_fields_pass [OF f']
        check_disjoint_cases check_quantity_cases fails_with_InvalidArgumentCombo_def get_or_empty_def)
qed

end
